theory Spec2Isabelle
  imports Complex_Main
begin

section \<open>Values exchanged with the libraries\<close>

text \<open>
  The program is the single script \<^verbatim>\<open>src/index.ts\<close>: module-level state
  (\<^verbatim>\<open>currentStep\<close>, \<^verbatim>\<open>startTime\<close>), the helpers
  \<^verbatim>\<open>logTimeWriteOutStep\<close> and \<^verbatim>\<open>getCurrentTime\<close>, and the
  asynchronous \<^verbatim>\<open>main\<close>. Everything else (axios, fs, cheerio, the text
  splitter, the embedding client, the HNSW store, the chat model, moment, the
  clocks) is an imported library; its results are parameters of the model.
\<close>

datatype js_error = JsError string

record document =
  pageContent :: string
  metadata :: "(string \<times> string) list"

record embeddings_params =
  openAIApiKey :: string
  batchSize :: nat

record splitter_params =
  chunkSize :: nat
  chunkOverlap :: nat

record qa_response =
  resp_text :: string
  sourceDocuments :: "document list"

text \<open>A \<^verbatim>\<open>moment\<close> value already converted to a time zone: its calendar fields
  (\<open>month\<close> counted from 1, as the token \<^verbatim>\<open>MM\<close> prints it).\<close>

record moment =
  year :: nat
  month :: nat
  date :: nat
  hours :: nat
  minutes :: nat
  seconds :: nat

text \<open>
  The messages passed to \<^verbatim>\<open>logTimeWriteOutStep\<close>, one constructor per call
  site in source order (lines 45, 52, 56, 69, 74, 87, 93, 97, 104, 108, 113, 116).
  The literals are Korean text; the constructor names stand for them. The message
  of line 108 embeds \<^verbatim>\<open>resp.text\<close>.
\<close>

datatype log_message =
    MsgMainStart
  | MsgEmbeddingsReady
  | MsgHtmlFetched
  | MsgDirsReady
  | MsgResponseSaved
  | MsgHtmlLoaded
  | MsgDocumentsConverted
  | MsgVectorStoreReady
  | MsgChainReady
  | MsgQaResponse string
  | MsgRecordSaved
  | MsgAllDone

text \<open>A line written by \<^verbatim>\<open>console.log\<close>: \<^verbatim>\<open>[<elapsed>s] Step <n>: <message>\<close>.
  The elapsed time is kept as the number of hundredths of a second that
  \<^verbatim>\<open>toFixed(2)\<close> prints.\<close>

record log_line =
  elapsedTime :: int
  stepNo :: nat
  message :: log_message

text \<open>Calls that leave the process, in the order they are made.\<close>

datatype event =
    EvHttpGet string
  | EvMkdir string
  | EvWriteFile string string
  | EvSplit "document list"
  | EvFromDocuments "document list"
  | EvChainCall string

section \<open>The environment and the state of a run\<close>

text \<open>
  What the libraries and the operating system answer. Clocks and the network are
  indexed by the number of earlier calls, so that two calls with the same
  arguments may get different answers. \<open>'s\<close> is the type of the vector store
  that \<^verbatim>\<open>HNSWLib.fromDocuments\<close> returns. \<open>config_query\<close> is the (Korean)
  prompt of \<^verbatim>\<open>config.query\<close>; \<open>projectBaseDir\<close> is the value computed at
  lines 59 to 61 from \<^verbatim>\<open>import.meta.url\<close>.
\<close>

record 's env =
  config_query :: string
  env_OPENAI_API_KEY :: "string option"
  projectBaseDir :: string
  perf_now :: "nat \<Rightarrow> real"
  wall_now :: "nat \<Rightarrow> int"
  tz :: "string \<Rightarrow> int \<Rightarrow> moment"
  http_get :: "nat \<Rightarrow> string \<Rightarrow> js_error + string"
  fs_exists :: "string \<Rightarrow> bool"
  fs_mkdir :: "string \<Rightarrow> js_error option"
  fs_write :: "string \<Rightarrow> string \<Rightarrow> js_error option"
  new_embeddings :: "embeddings_params \<Rightarrow> js_error option"
  new_chat_model :: "string \<Rightarrow> js_error option"
  cheerio_extract :: "string \<Rightarrow> string \<Rightarrow> string \<Rightarrow> js_error + document list"
  split_documents :: "splitter_params \<Rightarrow> document list \<Rightarrow> js_error + document list"
  from_documents :: "document list \<Rightarrow> embeddings_params \<Rightarrow> js_error + 's"
  chain_call :: "string \<Rightarrow> 's \<Rightarrow> string \<Rightarrow> js_error + qa_response"

record world =
  currentStep :: nat
  startTime :: real
  perf_calls :: nat
  wall_calls :: nat
  http_calls :: nat
  console :: "log_line list"
  trace :: "event list"

type_synonym 'a prog = "world \<Rightarrow> (js_error + 'a) \<times> world"

definition ret :: "'a \<Rightarrow> 'a prog" where
  "ret x w = (Inr x, w)"

definition throw :: "js_error \<Rightarrow> 'a prog" where
  "throw e w = (Inl e, w)"

text \<open>Sequencing: a rejected promise or a thrown exception skips the rest.\<close>

definition bnd :: "'a prog \<Rightarrow> ('a \<Rightarrow> 'b prog) \<Rightarrow> 'b prog" where
  "bnd m f w = (case m w of (Inl e, w') \<Rightarrow> (Inl e, w') | (Inr x, w') \<Rightarrow> f x w')"

definition of_option :: "js_error option \<Rightarrow> unit prog" where
  "of_option r = (case r of None \<Rightarrow> ret () | Some e \<Rightarrow> throw e)"

definition of_sum :: "js_error + 'a \<Rightarrow> 'a prog" where
  "of_sum r = (case r of Inl e \<Rightarrow> throw e | Inr x \<Rightarrow> ret x)"

definition emit :: "event \<Rightarrow> unit prog" where
  "emit ev w = (Inr (), w\<lparr>trace := trace w @ [ev]\<rparr>)"

section \<open>Lines 18 to 41: configuration, step counter, logging, time stamps\<close>

definition config_domain :: string where
  "config_domain = ''https://news.naver.com/section/100''"

text \<open>Lines 26 and 27: \<^verbatim>\<open>currentStep = 1\<close> and the first reading of
  \<^verbatim>\<open>performance.now()\<close>.\<close>

definition init_world :: "'s env \<Rightarrow> world" where
  "init_world env =
     \<lparr>currentStep = 1, startTime = perf_now env 0, perf_calls = 1, wall_calls = 0,
      http_calls = 0, console = [], trace = []\<rparr>"

definition performance_now :: "'s env \<Rightarrow> real prog" where
  "performance_now env w =
     (Inr (perf_now env (perf_calls w)), w\<lparr>perf_calls := Suc (perf_calls w)\<rparr>)"

text \<open>
  JavaScript numbers are IEEE 754 doubles, and \<^verbatim>\<open>-\<close> and \<^verbatim>\<open>/\<close> return the double
  nearest to the exact result, the one with an even significand at a tie. A
  double is kept as the real number it stands for. \<open>binade a\<close> is the exponent
  \<open>e\<close> with \<open>2 powi e \<le> a < 2 powi (e + 1)\<close>, held at \<open>- 1022\<close> below the normal
  range and at \<open>1023\<close> above it; doubles of that exponent are the multiples of
  \<open>ulp a\<close>. Overflow to \<^verbatim>\<open>Infinity\<close> is left out.
\<close>

definition round_half_even :: "real \<Rightarrow> int" where
  "round_half_even r =
     (let f = \<lfloor>r\<rfloor>; d = r - of_int f
      in if d < 1 / 2 then f else if 1 / 2 < d then f + 1 else if even f then f else f + 1)"

fun expo_from :: "nat \<Rightarrow> real \<Rightarrow> int" where
  "expo_from 0 a = - 1022"
| "expo_from (Suc k) a =
     (if 2 powi (int (Suc k) - 1022) \<le> a then int (Suc k) - 1022 else expo_from k a)"

definition binade :: "real \<Rightarrow> int" where
  "binade a = expo_from 2045 a"

definition ulp :: "real \<Rightarrow> real" where
  "ulp a = 2 powi (binade a - 52)"

definition nearest :: "real \<Rightarrow> real" where
  "nearest a = of_int (round_half_even (a / ulp a)) * ulp a"

definition to_double :: "real \<Rightarrow> real" where
  "to_double x = sgn x * nearest \<bar>x\<bar>"

text \<open>\<^verbatim>\<open>x.toFixed(2)\<close> as a count of hundredths: for \<open>x \<ge> 0\<close> the integer \<open>n\<close> with
  \<open>n / 100\<close> nearest to \<open>x\<close>, the larger one at a tie; for \<open>x < 0\<close> the sign is
  set aside and put back. (Exponential notation, from \<open>10 ^ 21\<close> on, is left out.)\<close>

definition toFixed2 :: "real \<Rightarrow> int" where
  "toFixed2 x = (if x < 0 then - round (- x * 100) else round (x * 100))"

text \<open>Line 31: \<^verbatim>\<open>((performance.now() - startTime) / 1000).toFixed(2)\<close>.\<close>

definition elapsed :: "real \<Rightarrow> real \<Rightarrow> int" where
  "elapsed start now = toFixed2 (to_double (to_double (now - start) / 1000))"

definition logTimeWriteOutStep :: "'s env \<Rightarrow> log_message \<Rightarrow> unit prog" where
  "logTimeWriteOutStep env msg =
     bnd (performance_now env) (\<lambda>now w.
       (Inr (),
        w\<lparr>console := console w @
             [\<lparr>elapsedTime = elapsed (startTime w) now,
               stepNo = currentStep w, message = msg\<rparr>],
          currentStep := currentStep w + 1\<rparr>))"

function show_nat :: "nat \<Rightarrow> string" where
  "show_nat n =
     (if n < 10 then [''0123456789'' ! n]
      else show_nat (n div 10) @ [''0123456789'' ! (n mod 10)])"
  by pat_completeness auto
termination
  by (relation "measure id") auto

declare show_nat.simps [simp del]

text \<open>moment's \<^verbatim>\<open>zeroFill\<close>: pad on the left with zeros, never truncate.\<close>

definition zeroFill :: "nat \<Rightarrow> nat \<Rightarrow> string" where
  "zeroFill n targetLength =
     replicate (targetLength - length (show_nat n)) (CHR ''0'') @ show_nat n"

text \<open>\<^verbatim>\<open>m.format("YYYY-MM-DD HH:mm:ss")\<close>.\<close>

definition format_moment :: "moment \<Rightarrow> string" where
  "format_moment m =
     zeroFill (year m) 4 @ ''-'' @ zeroFill (month m) 2 @ ''-'' @ zeroFill (date m) 2 @
     '' '' @ zeroFill (hours m) 2 @ '':'' @ zeroFill (minutes m) 2 @ '':'' @
     zeroFill (seconds m) 2"

definition getCurrentTime :: "'s env \<Rightarrow> string prog" where
  "getCurrentTime env w =
     (Inr (format_moment (tz env ''Asia/Seoul'' (wall_now env (wall_calls w)))),
      w\<lparr>wall_calls := Suc (wall_calls w)\<rparr>)"

section \<open>The library calls made by \<open>main\<close>\<close>

text \<open>
  Each wrapper consults the environment and records the call. \<open>EvHttpGet\<close>,
  \<open>EvSplit\<close>, \<open>EvFromDocuments\<close> and \<open>EvChainCall\<close> are recorded when the call
  is made, \<open>EvMkdir\<close> and \<open>EvWriteFile\<close> when the file system call has
  returned normally.
\<close>

text \<open>\<^verbatim>\<open>path.join(dir, name)\<close> with the POSIX separator, for a normalised
  directory, as \<^verbatim>\<open>path.dirname\<close> of a resolved path is, and a name of one
  segment: the two are joined by a single separator, none being added after a
  directory that ends in one (the root) or before the name when the directory
  is empty.\<close>

definition path_join :: "string \<Rightarrow> string \<Rightarrow> string" where
  "path_join dir name =
     (if dir = [] then name
      else if last dir = CHR ''/'' then dir @ name
      else dir @ ''/'' @ name)"

definition take_http :: "'s env \<Rightarrow> string \<Rightarrow> string prog" where
  "take_http env url w =
     of_sum (http_get env (http_calls w) url) (w\<lparr>http_calls := Suc (http_calls w)\<rparr>)"

definition axios_get :: "'s env \<Rightarrow> string \<Rightarrow> string prog" where
  "axios_get env url = bnd (emit (EvHttpGet url)) (\<lambda>_. take_http env url)"

definition mkdirSync :: "'s env \<Rightarrow> string \<Rightarrow> unit prog" where
  "mkdirSync env p = bnd (of_option (fs_mkdir env p)) (\<lambda>_. emit (EvMkdir p))"

definition writeFileSync :: "'s env \<Rightarrow> string \<Rightarrow> string \<Rightarrow> unit prog" where
  "writeFileSync env p dat =
     bnd (of_option (fs_write env p dat)) (\<lambda>_. emit (EvWriteFile p dat))"

definition OpenAIEmbeddings_new :: "'s env \<Rightarrow> embeddings_params \<Rightarrow> embeddings_params prog" where
  "OpenAIEmbeddings_new env params =
     bnd (of_option (new_embeddings env params)) (\<lambda>_. ret params)"

definition ChatOpenAI_new :: "'s env \<Rightarrow> string \<Rightarrow> string prog" where
  "ChatOpenAI_new env modelName =
     bnd (of_option (new_chat_model env modelName)) (\<lambda>_. ret modelName)"

text \<open>\<^verbatim>\<open>new CheerioWebBaseLoader(url, {selector}).load()\<close>: the loader is given
  the URL, not the body fetched earlier, so it requests the page itself and
  extracts the selected elements from what it receives.\<close>

definition CheerioWebBaseLoader_load :: "'s env \<Rightarrow> string \<Rightarrow> string \<Rightarrow> document list prog" where
  "CheerioWebBaseLoader_load env url selector =
     bnd (emit (EvHttpGet url)) (\<lambda>_.
     bnd (take_http env url) (\<lambda>html.
     of_sum (cheerio_extract env url selector html)))"

definition splitDocuments :: "'s env \<Rightarrow> splitter_params \<Rightarrow> document list \<Rightarrow> document list prog" where
  "splitDocuments env params ds =
     bnd (emit (EvSplit ds)) (\<lambda>_. of_sum (split_documents env params ds))"

definition HNSWLib_fromDocuments :: "'s env \<Rightarrow> document list \<Rightarrow> embeddings_params \<Rightarrow> 's prog" where
  "HNSWLib_fromDocuments env ds embeddings =
     bnd (emit (EvFromDocuments ds)) (\<lambda>_. of_sum (from_documents env ds embeddings))"

text \<open>\<^verbatim>\<open>RetrievalQAChain.fromLLM(model, vectorStore.asRetriever(), ...).call({query})\<close>.\<close>

definition RetrievalQAChain_call :: "'s env \<Rightarrow> string \<Rightarrow> 's \<Rightarrow> string \<Rightarrow> qa_response prog" where
  "RetrievalQAChain_call env model vectorStore q =
     bnd (emit (EvChainCall q)) (\<lambda>_. of_sum (chain_call env model vectorStore q))"

section \<open>Lines 43 to 117: \<open>main\<close>\<close>

definition cacheDir :: "'s env \<Rightarrow> string" where
  "cacheDir env = path_join (projectBaseDir env) ''cache''"

definition recordDir :: "'s env \<Rightarrow> string" where
  "recordDir env = path_join (projectBaseDir env) ''record''"

definition ensure_dir :: "'s env \<Rightarrow> string \<Rightarrow> unit prog" where
  "ensure_dir env p = (if \<not> fs_exists env p then mkdirSync env p else ret ())"

text \<open>Lines 48 to 51: the fields passed to \<^verbatim>\<open>new OpenAIEmbeddings\<close>;
  \<^verbatim>\<open>process.env.OPENAI_API_KEY || ""\<close> is the empty string when the variable
  is unset.\<close>

definition embeddings_fields :: "'s env \<Rightarrow> embeddings_params" where
  "embeddings_fields env =
     \<lparr>openAIApiKey = (case env_OPENAI_API_KEY env of None \<Rightarrow> [] | Some k \<Rightarrow> k),
      batchSize = 512\<rparr>"

text \<open>Lines 81 to 84: the fields passed to \<^verbatim>\<open>new RecursiveCharacterTextSplitter\<close>.\<close>

definition splitter_fields :: splitter_params where
  "splitter_fields = \<lparr>chunkSize = 2000, chunkOverlap = 100\<rparr>"

text \<open>Lines 72 and 111: the paths of the two files written, from the time stamp
  taken just before each write.\<close>

definition filePath :: "'s env \<Rightarrow> string \<Rightarrow> string" where
  "filePath env t = path_join (cacheDir env) (t @ ''-response.html'')"

definition filePath2 :: "'s env \<Rightarrow> string \<Rightarrow> string" where
  "filePath2 env t = path_join (recordDir env) (t @ ''-record.txt'')"

text \<open>Lines 90 to 92: each split document is rebuilt from its two fields.\<close>

definition to_docs :: "document list \<Rightarrow> document list" where
  "to_docs splitDocs =
     map (\<lambda>item. \<lparr>pageContent = pageContent item, metadata = metadata item\<rparr>) splitDocs"

definition main :: "'s env \<Rightarrow> unit prog" where
  "main env =
     bnd (logTimeWriteOutStep env MsgMainStart) (\<lambda>_.
     bnd (OpenAIEmbeddings_new env (embeddings_fields env)) (\<lambda>embeddings.
     bnd (logTimeWriteOutStep env MsgEmbeddingsReady) (\<lambda>_.
     bnd (axios_get env config_domain) (\<lambda>response_data.
     bnd (logTimeWriteOutStep env MsgHtmlFetched) (\<lambda>_.
     bnd (ensure_dir env (cacheDir env)) (\<lambda>_.
     bnd (ensure_dir env (recordDir env)) (\<lambda>_.
     bnd (logTimeWriteOutStep env MsgDirsReady) (\<lambda>_.
     bnd (getCurrentTime env) (\<lambda>t1.
     bnd (writeFileSync env (filePath env t1) response_data) (\<lambda>_.
     bnd (logTimeWriteOutStep env MsgResponseSaved) (\<lambda>_.
     bnd (CheerioWebBaseLoader_load env config_domain ''li'') (\<lambda>loadedData.
     bnd (splitDocuments env splitter_fields loadedData) (\<lambda>splitDocs.
     bnd (logTimeWriteOutStep env MsgHtmlLoaded) (\<lambda>_.
     bnd (ret (to_docs splitDocs)) (\<lambda>docs.
     bnd (logTimeWriteOutStep env MsgDocumentsConverted) (\<lambda>_.
     bnd (HNSWLib_fromDocuments env docs embeddings) (\<lambda>vectorStore.
     bnd (logTimeWriteOutStep env MsgVectorStoreReady) (\<lambda>_.
     bnd (ChatOpenAI_new env ''gpt-3.5-turbo'') (\<lambda>model.
     bnd (logTimeWriteOutStep env MsgChainReady) (\<lambda>_.
     bnd (RetrievalQAChain_call env model vectorStore (config_query env)) (\<lambda>resp.
     bnd (logTimeWriteOutStep env (MsgQaResponse (resp_text resp))) (\<lambda>_.
     bnd (getCurrentTime env) (\<lambda>t2.
     bnd (writeFileSync env (filePath2 env t2) (resp_text resp)) (\<lambda>_.
     bnd (logTimeWriteOutStep env MsgRecordSaved) (\<lambda>_.
     logTimeWriteOutStep env MsgAllDone)))))))))))))))))))))))))"

text \<open>Line 120: the module runs \<open>main\<close> once, on the freshly initialised state.\<close>

definition run :: "'s env \<Rightarrow> (js_error + unit) \<times> world" where
  "run env = main env (init_world env)"

section \<open>The shape of a time stamp\<close>

definition is_digit :: "char \<Rightarrow> bool" where
  "is_digit c = (c \<in> set ''0123456789'')"

text \<open>A string matches a pattern when it has the pattern's length, a digit
  wherever the pattern has \<open>d\<close>, and the pattern's own character elsewhere.\<close>

fun matches :: "string \<Rightarrow> string \<Rightarrow> bool" where
  "matches [] [] = True"
| "matches (p # ps) (c # cs) = ((if p = CHR ''d'' then is_digit c else c = p) \<and> matches ps cs)"
| "matches _ _ = False"

text \<open>The shape of \<^verbatim>\<open>YYYY-MM-DD HH:mm:ss\<close>: a year of at least four digits (moment
  zero-fills the year to four digits and prints a longer one in full), then
  two digits for each other field, with the separators of the format.\<close>

definition is_timestamp :: "string \<Rightarrow> bool" where
  "is_timestamp s =
     (4 \<le> length (takeWhile is_digit s) \<and>
      matches ''-dd-dd dd:dd:dd'' (dropWhile is_digit s))"

text \<open>Calendar fields as a time zone conversion delivers them.\<close>

definition valid_moment :: "moment \<Rightarrow> bool" where
  "valid_moment m =
     (1 \<le> month m \<and> month m \<le> 12 \<and> 1 \<le> date m \<and> date m \<le> 31 \<and>
      hours m < 24 \<and> minutes m < 60 \<and> seconds m < 60)"

text \<open>The time stamp that the \<open>n\<close>-th call of \<open>getCurrentTime\<close> returns.\<close>

definition stamp :: "'s env \<Rightarrow> nat \<Rightarrow> string" where
  "stamp env n = format_moment (tz env ''Asia/Seoul'' (wall_now env n))"

definition is_write :: "event \<Rightarrow> bool" where
  "is_write ev = (case ev of EvWriteFile _ _ \<Rightarrow> True | _ \<Rightarrow> False)"

definition is_http :: "event \<Rightarrow> bool" where
  "is_http ev = (case ev of EvHttpGet _ \<Rightarrow> True | _ \<Rightarrow> False)"

text \<open>The only file writes \<open>main\<close> can make: the body answered to the first
  request, to the cache file under the first time stamp; and the text of a
  chain answer, to the record file under the second.\<close>

definition cache_write :: "'s env \<Rightarrow> event \<Rightarrow> bool" where
  "cache_write env ev =
     (\<exists>raw. http_get env 0 config_domain = Inr raw \<and>
            ev = EvWriteFile (filePath env (stamp env 0)) raw)"

definition record_write :: "'s env \<Rightarrow> event \<Rightarrow> bool" where
  "record_write env ev =
     (\<exists>store resp. chain_call env ''gpt-3.5-turbo'' store (config_query env) = Inr resp \<and>
            ev = EvWriteFile (filePath2 env (stamp env 1)) (resp_text resp))"

section \<open>Assertions on a run\<close>

text \<open>
  \<open>hoare P m Q E\<close>: started in a state satisfying \<open>P\<close>, the program \<open>m\<close> ends
  normally in a state satisfying \<open>Q\<close> of its result, or throws in a state
  satisfying \<open>E\<close> of the error. Every program here terminates, so this is total
  correctness.
\<close>

definition hoare ::
  "(world \<Rightarrow> bool) \<Rightarrow> 'a prog \<Rightarrow> ('a \<Rightarrow> world \<Rightarrow> bool) \<Rightarrow> (js_error \<Rightarrow> world \<Rightarrow> bool) \<Rightarrow> bool" where
  "hoare P m Q E =
     (\<forall>w. P w \<longrightarrow> (case m w of (Inl e, w') \<Rightarrow> E e w' | (Inr x, w') \<Rightarrow> Q x w'))"

text \<open>The state is exactly \<open>W\<close>, and the facts \<open>C\<close> about the environment hold.\<close>

definition at_world :: "world \<Rightarrow> bool \<Rightarrow> world \<Rightarrow> bool" where
  "at_world W C w = (w = W \<and> C)"

definition log_upd :: "'s env \<Rightarrow> log_message \<Rightarrow> world \<Rightarrow> world" where
  "log_upd env msg w =
     w\<lparr>perf_calls := Suc (perf_calls w),
       console := console w @
         [\<lparr>elapsedTime = elapsed (startTime w) (perf_now env (perf_calls w)),
           stepNo = currentStep w, message = msg\<rparr>],
       currentStep := currentStep w + 1\<rparr>"

definition http_upd :: "string \<Rightarrow> world \<Rightarrow> world" where
  "http_upd url w = w\<lparr>trace := trace w @ [EvHttpGet url], http_calls := Suc (http_calls w)\<rparr>"

definition mkdir_upd :: "'s env \<Rightarrow> string \<Rightarrow> world \<Rightarrow> world" where
  "mkdir_upd env p w = w\<lparr>trace := trace w @ (if fs_exists env p then [] else [EvMkdir p])\<rparr>"

definition event_upd :: "event \<Rightarrow> world \<Rightarrow> world" where
  "event_upd ev w = w\<lparr>trace := trace w @ [ev]\<rparr>"

definition wall_upd :: "world \<Rightarrow> world" where
  "wall_upd w = w\<lparr>wall_calls := Suc (wall_calls w)\<rparr>"

text \<open>What the console holds when \<open>currentStep\<close> has reached a given value: line
  \<open>k\<close> carries step number \<open>k\<close> and the elapsed time of the \<open>k\<close>-th clock reading
  after the one taken at start.\<close>

definition log_inv :: "'s env \<Rightarrow> world \<Rightarrow> bool" where
  "log_inv env w =
     (map stepNo (console w) = [1..<currentStep w] \<and>
      map elapsedTime (console w) =
        map (\<lambda>k. elapsed (perf_now env 0) (perf_now env k)) [1..<currentStep w])"

section \<open>Two concrete environments\<close>

text \<open>A run in which every call succeeds. The page changes between the two
  requests; the clock advances a quarter of a second per reading.\<close>

definition sample_env :: "nat env" where
  "sample_env =
     \<lparr>config_query = ''summarise'', env_OPENAI_API_KEY = Some ''sk-test'',
      projectBaseDir = ''/app/src'',
      perf_now = (\<lambda>n. real n * 250), wall_now = (\<lambda>n. int n * 1000),
      tz = (\<lambda>zone t. \<lparr>year = 2024, month = 5, date = 7, hours = 9, minutes = 3,
                         seconds = nat (t div 1000 mod 60)\<rparr>),
      http_get = (\<lambda>n url. Inr (if n = 0 then ''<li>old</li>'' else ''<li>new</li>'')),
      fs_exists = (\<lambda>p. False), fs_mkdir = (\<lambda>p. None), fs_write = (\<lambda>p d. None),
      new_embeddings = (\<lambda>p. None), new_chat_model = (\<lambda>m. None),
      cheerio_extract = (\<lambda>url sel html. Inr [\<lparr>pageContent = html, metadata = []\<rparr>]),
      split_documents = (\<lambda>p ds. Inr ds),
      from_documents = (\<lambda>ds e. Inr (length ds)),
      chain_call = (\<lambda>m s q. Inr \<lparr>resp_text = ''answer'', sourceDocuments = []\<rparr>)\<rparr>"

text \<open>A run in which the page has no list items and the splitter returns no
  chunk; building the store on no documents succeeds, the chain fails.\<close>

definition empty_env :: "nat env" where
  "empty_env =
     \<lparr>config_query = ''summarise'', env_OPENAI_API_KEY = Some ''sk-test'',
      projectBaseDir = ''/app/src'',
      perf_now = (\<lambda>n. real n * 250), wall_now = (\<lambda>n. int n * 1000),
      tz = (\<lambda>zone t. \<lparr>year = 2024, month = 5, date = 7, hours = 9, minutes = 3,
                         seconds = nat (t div 1000 mod 60)\<rparr>),
      http_get = (\<lambda>n url. Inr ''<p>nothing</p>''),
      fs_exists = (\<lambda>p. True), fs_mkdir = (\<lambda>p. None), fs_write = (\<lambda>p d. None),
      new_embeddings = (\<lambda>p. None), new_chat_model = (\<lambda>m. None),
      cheerio_extract = (\<lambda>url sel html. Inr [\<lparr>pageContent = [], metadata = []\<rparr>]),
      split_documents = (\<lambda>p ds. Inr []),
      from_documents = (\<lambda>ds e. Inr (length ds)),
      chain_call = (\<lambda>m s q. Inl (JsError ''no vectors''))\<rparr>"

section \<open>Rules for sequencing and for each call\<close>

lemma hoare_bnd:
  "hoare P m R E \<Longrightarrow> (\<And>x. hoare (R x) (f x) (Q x) E) \<Longrightarrow>
   hoare P (bnd m f) (\<lambda>y w. \<exists>x. Q x y w) E"
  by (fastforce simp: hoare_def bnd_def split: prod.splits sum.splits)

lemma hoare_post:
  "hoare P m Q' E \<Longrightarrow> (\<And>x w. Q' x w \<Longrightarrow> Q x w) \<Longrightarrow> hoare P m Q E"
  by (fastforce simp: hoare_def split: prod.splits sum.splits)

lemma log_apply: "logTimeWriteOutStep env msg w = (Inr (), log_upd env msg w)"
  by (simp add: bnd_def logTimeWriteOutStep_def performance_now_def log_upd_def)

lemma sp_log: "hoare (at_world W C) (logTimeWriteOutStep env msg) (\<lambda>_. at_world (log_upd env msg W) C) E"
  by (simp add: hoare_def at_world_def log_apply)

lemma sp_ret: "hoare (at_world W C) (ret v) (\<lambda>x. at_world W (C \<and> x = v)) E"
  by (simp add: hoare_def at_world_def ret_def)

lemma sp_getCurrentTime:
  "hoare (at_world W C) (getCurrentTime env)
     (\<lambda>t. at_world (wall_upd W) (C \<and> t = stamp env (wall_calls W))) E"
  by (simp add: hoare_def at_world_def getCurrentTime_def wall_upd_def stamp_def)

lemma sp_new_embeddings:
  "(\<And>e. C \<Longrightarrow> new_embeddings env p = Some e \<Longrightarrow> E e W) \<Longrightarrow>
   hoare (at_world W C) (OpenAIEmbeddings_new env p)
     (\<lambda>x. at_world W (C \<and> new_embeddings env p = None \<and> x = p)) E"
  by (auto simp: hoare_def at_world_def OpenAIEmbeddings_new_def bnd_def of_option_def ret_def
      throw_def split: option.splits)

lemma sp_new_chat:
  "(\<And>e. C \<Longrightarrow> new_chat_model env p = Some e \<Longrightarrow> E e W) \<Longrightarrow>
   hoare (at_world W C) (ChatOpenAI_new env p)
     (\<lambda>x. at_world W (C \<and> new_chat_model env p = None \<and> x = p)) E"
  by (auto simp: hoare_def at_world_def ChatOpenAI_new_def bnd_def of_option_def ret_def
      throw_def split: option.splits)

lemma sp_axios_get:
  "(\<And>e. C \<Longrightarrow> http_get env (http_calls W) url = Inl e \<Longrightarrow> E e (http_upd url W)) \<Longrightarrow>
   hoare (at_world W C) (axios_get env url)
     (\<lambda>x. at_world (http_upd url W) (C \<and> http_get env (http_calls W) url = Inr x)) E"
  by (auto simp: hoare_def at_world_def axios_get_def take_http_def emit_def bnd_def of_sum_def
      ret_def throw_def http_upd_def split: sum.splits)

lemma sp_ensure_dir:
  "(\<And>e. C \<Longrightarrow> \<not> fs_exists env p \<Longrightarrow> fs_mkdir env p = Some e \<Longrightarrow> E e W) \<Longrightarrow>
   hoare (at_world W C) (ensure_dir env p)
     (\<lambda>_. at_world (mkdir_upd env p W) (C \<and> (fs_exists env p \<or> fs_mkdir env p = None))) E"
  by (auto simp: hoare_def at_world_def ensure_dir_def mkdirSync_def emit_def bnd_def
      of_option_def ret_def throw_def mkdir_upd_def split: option.splits)

lemma sp_writeFileSync:
  "(\<And>e. C \<Longrightarrow> fs_write env p d = Some e \<Longrightarrow> E e W) \<Longrightarrow>
   hoare (at_world W C) (writeFileSync env p d)
     (\<lambda>_. at_world (event_upd (EvWriteFile p d) W) (C \<and> fs_write env p d = None)) E"
  by (auto simp: hoare_def at_world_def writeFileSync_def emit_def bnd_def of_option_def ret_def
      throw_def event_upd_def split: option.splits)

lemma sp_loader:
  "(\<And>e. C \<Longrightarrow> http_get env (http_calls W) url = Inl e \<Longrightarrow> E e (http_upd url W)) \<Longrightarrow>
   (\<And>e html. C \<Longrightarrow> http_get env (http_calls W) url = Inr html \<Longrightarrow>
       cheerio_extract env url sel html = Inl e \<Longrightarrow> E e (http_upd url W)) \<Longrightarrow>
   hoare (at_world W C) (CheerioWebBaseLoader_load env url sel)
     (\<lambda>x. at_world (http_upd url W)
        (C \<and> (\<exists>html. http_get env (http_calls W) url = Inr html \<and>
                      cheerio_extract env url sel html = Inr x))) E"
  by (auto simp: hoare_def at_world_def CheerioWebBaseLoader_load_def take_http_def emit_def
      bnd_def of_sum_def ret_def throw_def http_upd_def split: sum.splits)

lemma sp_splitDocuments:
  "(\<And>e. C \<Longrightarrow> split_documents env p ds = Inl e \<Longrightarrow> E e (event_upd (EvSplit ds) W)) \<Longrightarrow>
   hoare (at_world W C) (splitDocuments env p ds)
     (\<lambda>x. at_world (event_upd (EvSplit ds) W) (C \<and> split_documents env p ds = Inr x)) E"
  by (auto simp: hoare_def at_world_def splitDocuments_def emit_def bnd_def of_sum_def ret_def
      throw_def event_upd_def split: sum.splits)

lemma sp_fromDocuments:
  "(\<And>e. C \<Longrightarrow> from_documents env ds em = Inl e \<Longrightarrow> E e (event_upd (EvFromDocuments ds) W)) \<Longrightarrow>
   hoare (at_world W C) (HNSWLib_fromDocuments env ds em)
     (\<lambda>x. at_world (event_upd (EvFromDocuments ds) W) (C \<and> from_documents env ds em = Inr x)) E"
  by (auto simp: hoare_def at_world_def HNSWLib_fromDocuments_def emit_def bnd_def of_sum_def
      ret_def throw_def event_upd_def split: sum.splits)

lemma sp_chain_call:
  "(\<And>e. C \<Longrightarrow> chain_call env m s q = Inl e \<Longrightarrow> E e (event_upd (EvChainCall q) W)) \<Longrightarrow>
   hoare (at_world W C) (RetrievalQAChain_call env m s q)
     (\<lambda>x. at_world (event_upd (EvChainCall q) W) (C \<and> chain_call env m s q = Inr x)) E"
  by (auto simp: hoare_def at_world_def RetrievalQAChain_call_def emit_def bnd_def of_sum_def
      ret_def throw_def event_upd_def split: sum.splits)

text \<open>A call followed by the rest of \<open>main\<close>: the rest first, then what must hold
  if the call throws.\<close>

lemmas sp_bnd_rules =
  hoare_bnd [OF sp_log] hoare_bnd [OF sp_ret] hoare_bnd [OF sp_getCurrentTime]
  hoare_bnd [OF sp_new_embeddings, rotated] hoare_bnd [OF sp_new_chat, rotated]
  hoare_bnd [OF sp_axios_get, rotated] hoare_bnd [OF sp_ensure_dir, rotated]
  hoare_bnd [OF sp_writeFileSync, rotated] hoare_bnd [OF sp_loader, rotated 2]
  hoare_bnd [OF sp_splitDocuments, rotated] hoare_bnd [OF sp_fromDocuments, rotated]
  hoare_bnd [OF sp_chain_call, rotated]

lemmas upd_defs = at_world_def log_upd_def http_upd_def mkdir_upd_def event_upd_def wall_upd_def
  init_world_def

lemma run_hoare:
  "hoare (at_world (init_world env) True) (main env) Q E \<Longrightarrow>
   (case run env of (Inl e, w) \<Rightarrow> E e w | (Inr x, w) \<Rightarrow> Q x w)"
  by (simp add: hoare_def at_world_def run_def)

section \<open>Rounding is monotone\<close>

lemma round_half_even_floor: "\<lfloor>r\<rfloor> \<le> round_half_even r \<and> round_half_even r \<le> \<lfloor>r\<rfloor> + 1"
  by (simp add: round_half_even_def Let_def)

lemma round_half_even_ge:
  assumes "of_int n \<le> r"
  shows "n \<le> round_half_even r"
proof -
  from assms have "n \<le> \<lfloor>r\<rfloor>" by (simp add: le_floor_iff)
  with round_half_even_floor [of r] show ?thesis by linarith
qed

lemma round_half_even_of_int: "round_half_even (of_int n) = n"
  by (simp add: round_half_even_def)

lemma round_half_even_le:
  assumes "r \<le> of_int n"
  shows "round_half_even r \<le> n"
proof (cases "r = of_int n")
  case True
  then show ?thesis by (simp add: round_half_even_of_int)
next
  case False
  with assms have "r < of_int n" by simp
  then have "\<lfloor>r\<rfloor> < n" by (simp add: floor_less_iff)
  with round_half_even_floor [of r] show ?thesis by linarith
qed

lemma round_half_even_mono:
  assumes "r \<le> s"
  shows "round_half_even r \<le> round_half_even s"
proof (cases "\<lfloor>r\<rfloor> = \<lfloor>s\<rfloor>")
  case True
  with assms show ?thesis
    by (auto simp: round_half_even_def Let_def)
next
  case False
  with assms have "\<lfloor>r\<rfloor> < \<lfloor>s\<rfloor>"
    using floor_mono [OF assms] by linarith
  with round_half_even_floor [of r] round_half_even_floor [of s] show ?thesis
    by linarith
qed

lemma expo_from_range: "- 1022 \<le> expo_from k a \<and> expo_from k a \<le> int k - 1022"
  by (induction k) auto

lemma expo_from_lower: "expo_from k a \<noteq> - 1022 \<Longrightarrow> 2 powi expo_from k a \<le> a"
  by (induction k) (auto split: if_splits)

lemma expo_from_upper: "expo_from k a < e \<Longrightarrow> e \<le> int k - 1022 \<Longrightarrow> a < 2 powi e"
proof (induction k)
  case 0
  then show ?case by simp
next
  case (Suc k)
  show ?case
  proof (cases "2 powi (int (Suc k) - 1022) \<le> a")
    case True
    with Suc.prems show ?thesis by simp
  next
    case False
    show ?thesis
    proof (cases "e = int (Suc k) - 1022")
      case True
      with False show ?thesis by simp
    next
      case False
      with Suc.prems \<open>\<not> 2 powi (int (Suc k) - 1022) \<le> a\<close> show ?thesis
        by (intro Suc.IH) auto
    qed
  qed
qed

lemma binade_mono:
  assumes "a \<le> b"
  shows "binade a \<le> binade b"
proof (cases "binade a = - 1022")
  case True
  then show ?thesis
    using expo_from_range [of 2045 b] by (simp add: binade_def)
next
  case False
  then have "2 powi binade a \<le> a"
    by (simp add: binade_def expo_from_lower)
  with assms have le: "2 powi binade a \<le> b" by simp
  show ?thesis
  proof (rule ccontr)
    assume "\<not> binade a \<le> binade b"
    then have "binade b < binade a" by simp
    moreover have "binade a \<le> int 2045 - 1022"
      using expo_from_range [of 2045 a] by (simp add: binade_def)
    ultimately have "b < 2 powi binade a"
      unfolding binade_def by (rule expo_from_upper)
    with le show False by simp
  qed
qed

lemma ulp_pos: "0 < ulp a"
  by (simp add: ulp_def zero_less_power_int)

lemma ulp_eq: "ulp a = 2 powi binade a / 2 ^ 52"
  by (simp add: ulp_def power_int_diff)

lemma nearest_nonneg: "0 \<le> a \<Longrightarrow> 0 \<le> nearest a"
proof -
  assume "0 \<le> a"
  then have "of_int 0 \<le> a / ulp a"
    using ulp_pos [of a] by simp
  then have "0 \<le> round_half_even (a / ulp a)"
    by (rule round_half_even_ge)
  then show ?thesis
    using ulp_pos [of a] by (simp add: nearest_def)
qed

lemma nearest_ge_binade:
  assumes "binade a \<noteq> - 1022"
  shows "2 powi binade a \<le> nearest a"
proof -
  let ?P = "2 powi binade a :: real"
  have P: "0 < ?P" by (simp add: zero_less_power_int)
  have "?P \<le> a"
    using assms by (simp add: binade_def expo_from_lower)
  then have "of_int (2 ^ 52) \<le> a / ulp a"
    using P by (simp add: ulp_eq field_simps)
  then have "2 ^ 52 \<le> round_half_even (a / ulp a)"
    by (rule round_half_even_ge)
  then have "(2 ^ 52 :: real) \<le> of_int (round_half_even (a / ulp a))"
    by (metis of_int_le_iff of_int_numeral of_int_power)
  then have "2 ^ 52 * ulp a \<le> nearest a"
    using ulp_pos [of a] by (simp add: nearest_def)
  then show ?thesis
    by (simp add: ulp_eq)
qed

lemma nearest_le_next:
  assumes "binade a < e" and "e \<le> 1023"
  shows "nearest a \<le> 2 powi e"
proof -
  let ?P = "2 powi binade a :: real"
  have P: "0 < ?P" by (simp add: zero_less_power_int)
  have "binade a < binade a + 1" and "binade a + 1 \<le> int 2045 - 1022"
    using assms by simp_all
  then have "a < 2 powi (binade a + 1)"
    unfolding binade_def by (rule expo_from_upper)
  then have "a < 2 * ?P"
    by (simp add: power_int_add)
  then have "a / ulp a \<le> of_int (2 ^ 53)"
    using P by (simp add: ulp_eq field_simps)
  then have "round_half_even (a / ulp a) \<le> 2 ^ 53"
    by (rule round_half_even_le)
  then have "of_int (round_half_even (a / ulp a)) \<le> (2 ^ 53 :: real)"
    by (metis of_int_le_iff of_int_numeral of_int_power)
  then have "nearest a \<le> 2 ^ 53 * ulp a"
    using ulp_pos [of a] by (simp add: nearest_def)
  also have "\<dots> = 2 powi (binade a + 1)"
    by (simp add: ulp_eq power_int_add)
  also have "\<dots> \<le> 2 powi e"
    using assms by (intro power_int_increasing) auto
  finally show ?thesis .
qed

lemma nearest_mono:
  assumes "a \<le> b"
  shows "nearest a \<le> nearest b"
proof (cases "binade a = binade b")
  case True
  then have u: "ulp a = ulp b" by (simp add: ulp_def)
  have "a / ulp b \<le> b / ulp b"
    using assms ulp_pos [of b] by (simp add: divide_right_mono)
  then have "round_half_even (a / ulp b) \<le> round_half_even (b / ulp b)"
    by (rule round_half_even_mono)
  then show ?thesis
    using ulp_pos [of b] by (simp add: nearest_def u)
next
  case False
  with binade_mono [OF assms] have lt: "binade a < binade b" by simp
  have "binade b \<le> 1023"
    using expo_from_range [of 2045 b] by (simp add: binade_def)
  with lt have "nearest a \<le> 2 powi binade b"
    by (rule nearest_le_next)
  moreover have "binade b \<noteq> - 1022"
    using lt expo_from_range [of 2045 a] by (simp add: binade_def)
  then have "2 powi binade b \<le> nearest b"
    by (rule nearest_ge_binade)
  ultimately show ?thesis by simp
qed

lemma to_double_mono:
  assumes "x \<le> y"
  shows "to_double x \<le> to_double y"
proof -
  consider "0 < x" | "x = 0" | "x < 0" "0 \<le> y" | "y < 0"
    using assms by linarith
  then show ?thesis
  proof cases
    case 1
    with assms nearest_mono [of x y] show ?thesis by (simp add: to_double_def)
  next
    case 2
    with assms nearest_nonneg [of "\<bar>y\<bar>"] show ?thesis
      by (simp add: to_double_def sgn_real_def)
  next
    case 3
    with nearest_nonneg [of "\<bar>x\<bar>"] nearest_nonneg [of "\<bar>y\<bar>"] show ?thesis
      by (simp add: to_double_def sgn_real_def)
  next
    case 4
    with assms nearest_mono [of "- y" "- x"] show ?thesis by (simp add: to_double_def)
  qed
qed

lemma toFixed2_mono:
  assumes "x \<le> y"
  shows "toFixed2 x \<le> toFixed2 y"
proof -
  have r0: "0 \<le> round (z * 100)" if "0 \<le> z" for z :: real
    using round_mono [of 0 "z * 100"] that by simp
  consider "0 \<le> x" | "x < 0" "0 \<le> y" | "y < 0"
    using assms by linarith
  then show ?thesis
  proof cases
    case 1
    with assms show ?thesis by (simp add: toFixed2_def round_mono)
  next
    case 2
    with r0 [of "- x"] r0 [of y] show ?thesis by (simp add: toFixed2_def)
  next
    case 3
    with assms show ?thesis by (simp add: toFixed2_def round_mono)
  qed
qed

lemma binade_eq:
  assumes "2 powi e \<le> a" and "a < 2 powi (e + 1)" and "- 1022 < e" and "e \<le> 1023"
  shows "binade a = e"
proof (rule antisym)
  show "binade a \<le> e"
  proof (rule ccontr)
    assume "\<not> binade a \<le> e"
    then have "e + 1 \<le> binade a" by simp
    then have "(2::real) powi (e + 1) \<le> 2 powi binade a"
      by (intro power_int_increasing) auto
    moreover have "2 powi binade a \<le> a"
      using \<open>e + 1 \<le> binade a\<close> assms(3) by (intro expo_from_lower [of 2045 a, folded binade_def]) auto
    ultimately show False using assms(2) by simp
  qed
  show "e \<le> binade a"
  proof (rule ccontr)
    assume "\<not> e \<le> binade a"
    then have "binade a < e" by simp
    then have "a < 2 powi e"
      using assms(4) by (intro expo_from_upper [of 2045 a, folded binade_def]) auto
    with assms(1) show False by simp
  qed
qed

lemma binade_15: "binade 15 = 3"
  by (rule binade_eq) simp_all

lemma to_double_15: "to_double 15 = 15"
  by (simp add: to_double_def nearest_def ulp_def binade_15 round_half_even_def Let_def)

lemma binade_15_thousandths: "binade (3 / 200) = - 7"
  by (rule binade_eq) simp_all

text \<open>Fifteen milliseconds are printed as \<^verbatim>\<open>0.01\<close>: the double nearest to 0.015
  lies below it.\<close>

lemma elapsed_15ms: "elapsed 0 15 = 1"
  apply (simp add: elapsed_def to_double_15)
  apply (simp add: to_double_def nearest_def ulp_def binade_15_thousandths round_half_even_def Let_def toFixed2_def)
  apply (simp add: round_def floor_eq_iff)
  done

lemma elapsed_mono: "t \<le> t' \<Longrightarrow> elapsed start t \<le> elapsed start t'"
  unfolding elapsed_def
  by (intro toFixed2_mono to_double_mono divide_right_mono diff_right_mono) simp_all

section \<open>The console\<close>

lemma main_log_inv:
  "hoare (at_world (init_world env) True) (main env)
     (\<lambda>_ w. log_inv env w \<and> currentStep w = 13) (\<lambda>_ w. log_inv env w)"
  unfolding main_def
  apply (rule hoare_post)
   apply (rule sp_bnd_rules sp_log)+
               apply (auto simp: upd_defs log_inv_def)
  done

lemma run_log_inv: "log_inv env (snd (run env))"
  using run_hoare [OF main_log_inv, of env]
  by (auto split: prod.splits sum.splits)

lemma run_success_currentStep: "fst (run env) = Inr () \<Longrightarrow> currentStep (snd (run env)) = 13"
  using run_hoare [OF main_log_inv, of env]
  by (auto split: prod.splits sum.splits)

lemma sorted_map_upt:
  fixes f :: "nat \<Rightarrow> int"
  assumes "\<And>i j. i \<le> j \<Longrightarrow> f i \<le> f j"
  shows "sorted (map f [a..<b])"
  by (induction b) (auto simp: sorted_append assms)

lemma sample_env_succeeds: "fst (run sample_env) = Inr ()"
proof -
  have "hoare (at_world (init_world sample_env) True) (main sample_env)
     (\<lambda>_ _. True) (\<lambda>_ _. False)"
    unfolding main_def
    apply (rule hoare_post)
     apply (rule sp_bnd_rules sp_log)+
                 apply (auto simp: sample_env_def)
    done
  from run_hoare [OF this] show ?thesis
    by (auto split: prod.splits sum.splits)
qed

lemma sample_env_mono: "mono (perf_now sample_env)"
  by (rule monoI) (simp add: sample_env_def)

section \<open>Time stamps\<close>

lemma digit_nth: "k < 10 \<Longrightarrow> is_digit (''0123456789'' ! k)"
  unfolding is_digit_def by (rule nth_mem) simp

lemma show_nat_digits: "list_all is_digit (show_nat n)"
proof (induction n rule: show_nat.induct)
  case (1 n)
  show ?case
  proof (cases "n < 10")
    case True
    then show ?thesis by (subst show_nat.simps) (simp add: digit_nth)
  next
    case False
    with 1 show ?thesis by (subst show_nat.simps) (simp add: digit_nth)
  qed
qed

lemma show_nat_length: "n < 10 ^ k \<Longrightarrow> 0 < k \<Longrightarrow> length (show_nat n) \<le> k"
proof (induction k arbitrary: n)
  case 0
  then show ?case by simp
next
  case (Suc k)
  show ?case
  proof (cases "n < 10")
    case True
    then show ?thesis by (subst show_nat.simps) simp
  next
    case False
    with Suc.prems have "n div 10 < 10 ^ k" and "0 < k"
      by (auto simp: less_mult_imp_div_less mult.commute intro: Nat.gr0I)
    then have "length (show_nat (n div 10)) \<le> k" by (rule Suc.IH)
    with False show ?thesis by (subst show_nat.simps) simp
  qed
qed

lemma matches_digits: "list_all is_digit s \<Longrightarrow> matches (replicate (length s) (CHR ''d'')) s"
  by (induction s) auto

lemma matches_append:
  "matches p1 s1 \<Longrightarrow> matches p2 s2 \<Longrightarrow> matches (p1 @ p2) (s1 @ s2)"
  by (induction p1 s1 rule: matches.induct) auto

lemma zeroFill_matches:
  assumes "n < 10 ^ k" and "0 < k"
  shows "matches (replicate k (CHR ''d'')) (zeroFill n k)"
proof -
  have len: "length (zeroFill n k) = k"
    using show_nat_length [OF assms] by (simp add: zeroFill_def)
  have "is_digit (CHR ''0'')"
    by (simp add: is_digit_def)
  then have "list_all is_digit (zeroFill n k)"
    using show_nat_digits [of n] by (auto simp: zeroFill_def list_all_iff)
  from matches_digits [OF this] len show ?thesis by simp
qed

lemma zeroFill_digits: "list_all is_digit (zeroFill n k)"
proof -
  have "is_digit (CHR ''0'')"
    by (simp add: is_digit_def)
  then show ?thesis
    using show_nat_digits [of n] by (auto simp: zeroFill_def list_all_iff)
qed

lemma format_fields:
  assumes "valid_moment m"
  shows "matches ''-dd-dd dd:dd:dd''
     (''-'' @ zeroFill (month m) 2 @ ''-'' @ zeroFill (date m) 2 @ '' '' @
      zeroFill (hours m) 2 @ '':'' @ zeroFill (minutes m) 2 @ '':'' @ zeroFill (seconds m) 2)"
proof -
  have rep: "replicate 2 (CHR ''d'') = ''dd''"
    by (simp add: eval_nat_numeral)
  have two: "matches ''dd'' (zeroFill n 2)" if "n < 100" for n
    using zeroFill_matches [of n 2] that by (simp add: rep)
  have mo: "matches ''dd'' (zeroFill (month m) 2)" and d: "matches ''dd'' (zeroFill (date m) 2)"
    and h: "matches ''dd'' (zeroFill (hours m) 2)" and mi: "matches ''dd'' (zeroFill (minutes m) 2)"
    and s: "matches ''dd'' (zeroFill (seconds m) 2)"
    using assms by (auto simp: valid_moment_def intro!: two)
  have sep: "matches ''-'' ''-''" "matches '' '' '' ''" "matches '':'' '':''"
    by simp_all
  have "matches (''-'' @ ''dd'' @ ''-'' @ ''dd'' @ '' '' @ ''dd'' @ '':'' @ ''dd'' @ '':'' @ ''dd'')
     (''-'' @ zeroFill (month m) 2 @ ''-'' @ zeroFill (date m) 2 @ '' '' @
      zeroFill (hours m) 2 @ '':'' @ zeroFill (minutes m) 2 @ '':'' @ zeroFill (seconds m) 2)"
    by (rule matches_append [OF sep(1) matches_append [OF mo
          matches_append [OF sep(1) matches_append [OF d matches_append [OF sep(2)
          matches_append [OF h matches_append [OF sep(3) matches_append [OF mi
          matches_append [OF sep(3) s]]]]]]]]])
  then show ?thesis by simp
qed

lemma format_is_timestamp:
  assumes "valid_moment m"
  shows "is_timestamp (format_moment m)"
proof -
  let ?y = "zeroFill (year m) 4"
  let ?rest = "''-'' @ zeroFill (month m) 2 @ ''-'' @ zeroFill (date m) 2 @ '' '' @
      zeroFill (hours m) 2 @ '':'' @ zeroFill (minutes m) 2 @ '':'' @ zeroFill (seconds m) 2"
  have f: "format_moment m = ?y @ ?rest"
    by (simp add: format_moment_def)
  have dig: "\<And>c. c \<in> set ?y \<Longrightarrow> is_digit c"
    using zeroFill_digits [of "year m" 4] by (simp add: list_all_iff)
  have sep: "\<not> is_digit (CHR ''-'')"
    by (simp add: is_digit_def)
  have "takeWhile is_digit (?y @ ?rest) = ?y @ takeWhile is_digit ?rest"
    using dig by (rule takeWhile_append2)
  then have t: "takeWhile is_digit (format_moment m) = ?y"
    using sep by (simp add: f)
  have "dropWhile is_digit (?y @ ?rest) = dropWhile is_digit ?rest"
    using dig by (rule dropWhile_append2)
  then have d: "dropWhile is_digit (format_moment m) = ?rest"
    using sep by (simp add: f)
  have "4 \<le> length ?y"
    by (simp add: zeroFill_def)
  with format_fields [OF assms] show ?thesis
    unfolding is_timestamp_def t d by simp
qed

lemma format_four_digit_year:
  assumes "valid_moment m" and "year m \<le> 9999"
  shows "matches ''dddd-dd-dd dd:dd:dd'' (format_moment m)"
proof -
  have rep: "replicate 4 (CHR ''d'') = ''dddd''"
    by (simp add: eval_nat_numeral)
  have y: "matches ''dddd'' (zeroFill (year m) 4)"
    using zeroFill_matches [of "year m" 4] assms(2) by (simp add: rep)
  have "matches (''dddd'' @ ''-dd-dd dd:dd:dd'') (format_moment m)"
    unfolding format_moment_def
    by (rule matches_append [OF y format_fields [OF assms(1)]])
  then show ?thesis by simp
qed

text \<open>A year of five digits is printed in full, as moment does.\<close>

lemma show_nat_digit: "n < 10 \<Longrightarrow> show_nat n = [''0123456789'' ! n]"
  by (subst show_nat.simps) simp

lemma show_nat_step:
  "\<not> n < 10 \<Longrightarrow> show_nat n = show_nat (n div 10) @ [''0123456789'' ! (n mod 10)]"
  by (subst show_nat.simps) simp

lemma format_year_10000:
  "format_moment \<lparr>year = 10000, month = 1, date = 1, hours = 8, minutes = 59, seconds = 59\<rparr> =
     ''10000-01-01 08:59:59''"
  by (simp add: format_moment_def zeroFill_def show_nat_digit show_nat_step)

lemma sample_env_stamps:
  "stamp sample_env 0 = ''2024-05-07 09:03:00''"
  "stamp sample_env 1 = ''2024-05-07 09:03:01''"
  by (simp_all add: stamp_def sample_env_def format_moment_def zeroFill_def
      show_nat_digit show_nat_step)

section \<open>The calls made, in order\<close>

lemma main_writes:
  "hoare (at_world (init_world env) True) (main env)
     (\<lambda>_ w. \<exists>ev1 ev2. cache_write env ev1 \<and> record_write env ev2 \<and>
          filter is_write (trace w) = [ev1, ev2])
     (\<lambda>_ w. \<forall>ev \<in> set (trace w). is_write ev \<longrightarrow> cache_write env ev \<or> record_write env ev)"
  unfolding main_def
  apply (rule hoare_post)
   apply (rule sp_bnd_rules sp_log)+
               apply (auto simp: upd_defs is_write_def cache_write_def record_write_def
      split: if_splits)
     apply blast+
  done

lemma filePath_contains: "\<exists>dir. filePath env t = dir @ t @ ''-response.html''"
  by (simp add: filePath_def path_join_def)

lemma filePath2_contains: "\<exists>dir. filePath2 env t = dir @ t @ ''-record.txt''"
  by (simp add: filePath2_def path_join_def)

lemma main_success_trace:
  "hoare (at_world (init_world env) True) (main env)
     (\<lambda>_ w. \<exists>raw html loaded chunks store resp.
        http_get env 0 config_domain = Inr raw \<and>
        http_get env 1 config_domain = Inr html \<and>
        cheerio_extract env config_domain ''li'' html = Inr loaded \<and>
        split_documents env splitter_fields loaded = Inr chunks \<and>
        from_documents env (to_docs chunks) (embeddings_fields env) = Inr store \<and>
        chain_call env ''gpt-3.5-turbo'' store (config_query env) = Inr resp \<and>
        http_calls w = 2 \<and>
        trace w =
          [EvHttpGet config_domain] @
          (if fs_exists env (cacheDir env) then [] else [EvMkdir (cacheDir env)]) @
          (if fs_exists env (recordDir env) then [] else [EvMkdir (recordDir env)]) @
          [EvWriteFile (filePath env (stamp env 0)) raw,
           EvHttpGet config_domain,
           EvSplit loaded,
           EvFromDocuments (to_docs chunks),
           EvChainCall (config_query env),
           EvWriteFile (filePath2 env (stamp env 1)) (resp_text resp)])
     (\<lambda>_ _. True)"
  unfolding main_def
  apply (rule hoare_post)
   apply (rule sp_bnd_rules sp_log)+
               apply (auto simp: upd_defs)
  done

lemma main_zero_chunks:
  "hoare (at_world (init_world env) True) (main env)
     (\<lambda>_ w. \<forall>loaded. EvSplit loaded \<in> set (trace w) \<longrightarrow>
         split_documents env splitter_fields loaded = Inr [] \<longrightarrow>
         EvFromDocuments [] \<in> set (trace w) \<and> EvChainCall (config_query env) \<in> set (trace w))
     (\<lambda>e w. \<forall>loaded. EvSplit loaded \<in> set (trace w) \<longrightarrow>
         split_documents env splitter_fields loaded = Inr [] \<longrightarrow>
         EvFromDocuments [] \<in> set (trace w) \<and>
         (\<forall>store. from_documents env [] (embeddings_fields env) = Inr store \<longrightarrow>
            new_chat_model env ''gpt-3.5-turbo'' = None \<longrightarrow>
            EvChainCall (config_query env) \<in> set (trace w)) \<and>
         (from_documents env [] (embeddings_fields env) = Inl e \<or>
          new_chat_model env ''gpt-3.5-turbo'' = Some e \<or>
          (\<exists>store. from_documents env [] (embeddings_fields env) = Inr store \<and>
             chain_call env ''gpt-3.5-turbo'' store (config_query env) = Inl e) \<or>
          (\<exists>answer. fs_write env (filePath2 env (stamp env 1)) answer = Some e)))"
  unfolding main_def
  apply (rule hoare_post)
   apply (rule sp_bnd_rules sp_log)+
               apply (auto simp: upd_defs to_docs_def split: if_splits)
  done

lemma empty_env_run:
  "fst (run empty_env) = Inl (JsError ''no vectors'') \<and>
   trace (snd (run empty_env)) =
     [EvHttpGet config_domain,
      EvWriteFile (filePath empty_env (stamp empty_env 0)) ''<p>nothing</p>'',
      EvHttpGet config_domain,
      EvSplit [\<lparr>pageContent = [], metadata = []\<rparr>],
      EvFromDocuments [],
      EvChainCall (config_query empty_env)]"
proof -
  have "hoare (at_world (init_world empty_env) True) (main empty_env)
     (\<lambda>_ _. False)
     (\<lambda>e w. e = JsError ''no vectors'' \<and> trace w =
     [EvHttpGet config_domain,
      EvWriteFile (filePath empty_env (stamp empty_env 0)) ''<p>nothing</p>'',
      EvHttpGet config_domain,
      EvSplit [\<lparr>pageContent = [], metadata = []\<rparr>],
      EvFromDocuments [],
      EvChainCall (config_query empty_env)])"
    unfolding main_def
    apply (rule hoare_post)
     apply (rule sp_bnd_rules sp_log)+
                 apply (auto simp: upd_defs to_docs_def empty_env_def)
    done
  from run_hoare [OF this] show ?thesis
    by (auto split: prod.splits sum.splits)
qed

section \<open>Claims\<close>

text \<open>
  C7. Every persisted artifact is stored under a key that contains a time stamp
  in the format \<^verbatim>\<open>YYYY-MM-DD HH:mm:ss\<close>, rendered in the one time zone
  \<^verbatim>\<open>Asia/Seoul\<close>. A successful run writes exactly two files, in this order: the
  body answered to the first request under a key that contains the first time
  stamp and ends in \<^verbatim>\<open>-response.html\<close>, and the text of the chain's answer under
  a key that contains the second time stamp and ends in \<^verbatim>\<open>-record.txt\<close>. In
  every run, failed or not, nothing else is written. Each time stamp is what
  \<^verbatim>\<open>format\<close> makes of the \<^verbatim>\<open>Asia/Seoul\<close> calendar fields of the instant read; for
  calendar fields in range it has the shape of the format, and for a year of at
  most four digits it is the nineteen characters \<^verbatim>\<open>dddd-dd-dd dd:dd:dd\<close>.
\<close>

theorem persisted_keys_timestamped:
  "(fst (run env) = Inr () \<longrightarrow>
      (\<exists>raw store resp.
         http_get env 0 config_domain = Inr raw \<and>
         chain_call env ''gpt-3.5-turbo'' store (config_query env) = Inr resp \<and>
         filter is_write (trace (snd (run env))) =
           [EvWriteFile (filePath env (stamp env 0)) raw,
            EvWriteFile (filePath2 env (stamp env 1)) (resp_text resp)])) \<and>
   (\<forall>ev \<in> set (trace (snd (run env))). is_write ev \<longrightarrow>
      (\<exists>raw. http_get env 0 config_domain = Inr raw \<and>
             ev = EvWriteFile (filePath env (stamp env 0)) raw) \<or>
      (\<exists>store resp. chain_call env ''gpt-3.5-turbo'' store (config_query env) = Inr resp \<and>
             ev = EvWriteFile (filePath2 env (stamp env 1)) (resp_text resp))) \<and>
   (\<exists>dir. filePath env (stamp env 0) = dir @ stamp env 0 @ ''-response.html'') \<and>
   (\<exists>dir. filePath2 env (stamp env 1) = dir @ stamp env 1 @ ''-record.txt'') \<and>
   (\<forall>n. stamp env n = format_moment (tz env ''Asia/Seoul'' (wall_now env n)) \<and>
        (valid_moment (tz env ''Asia/Seoul'' (wall_now env n)) \<longrightarrow>
           is_timestamp (stamp env n) \<and>
           (year (tz env ''Asia/Seoul'' (wall_now env n)) \<le> 9999 \<longrightarrow>
              matches ''dddd-dd-dd dd:dd:dd'' (stamp env n))))"
proof (intro conjI allI impI ballI)
  assume ok: "fst (run env) = Inr ()"
  then obtain ev1 ev2 where "cache_write env ev1" "record_write env ev2"
    "filter is_write (trace (snd (run env))) = [ev1, ev2]"
    using run_hoare [OF main_writes, of env] by (auto split: prod.splits sum.splits)
  then show "\<exists>raw store resp.
         http_get env 0 config_domain = Inr raw \<and>
         chain_call env ''gpt-3.5-turbo'' store (config_query env) = Inr resp \<and>
         filter is_write (trace (snd (run env))) =
           [EvWriteFile (filePath env (stamp env 0)) raw,
            EvWriteFile (filePath2 env (stamp env 1)) (resp_text resp)]"
    unfolding cache_write_def record_write_def by blast
next
  fix ev
  assume ev: "ev \<in> set (trace (snd (run env)))" "is_write ev"
  have "cache_write env ev \<or> record_write env ev"
  proof (cases "run env")
    case (Pair r w)
    show ?thesis
    proof (cases r)
      case (Inl e)
      with Pair run_hoare [OF main_writes, of env] ev show ?thesis
        by simp
    next
      case (Inr u)
      with Pair run_hoare [OF main_writes, of env] obtain ev1 ev2 where
        w: "cache_write env ev1" "record_write env ev2" "filter is_write (trace w) = [ev1, ev2]"
        by auto
      from ev Pair have "ev \<in> set (filter is_write (trace w))"
        by simp
      with w show ?thesis by auto
    qed
  qed
  then show "(\<exists>raw. http_get env 0 config_domain = Inr raw \<and>
             ev = EvWriteFile (filePath env (stamp env 0)) raw) \<or>
      (\<exists>store resp. chain_call env ''gpt-3.5-turbo'' store (config_query env) = Inr resp \<and>
             ev = EvWriteFile (filePath2 env (stamp env 1)) (resp_text resp))"
    by (simp add: cache_write_def record_write_def)
next
  show "\<exists>dir. filePath env (stamp env 0) = dir @ stamp env 0 @ ''-response.html''"
    by (rule filePath_contains)
  show "\<exists>dir. filePath2 env (stamp env 1) = dir @ stamp env 1 @ ''-record.txt''"
    by (rule filePath2_contains)
next
  fix n
  show "stamp env n = format_moment (tz env ''Asia/Seoul'' (wall_now env n))"
    by (simp add: stamp_def)
  assume v: "valid_moment (tz env ''Asia/Seoul'' (wall_now env n))"
  then show "is_timestamp (stamp env n)"
    by (simp add: stamp_def format_is_timestamp)
  assume "year (tz env ''Asia/Seoul'' (wall_now env n)) \<le> 9999"
  with v show "matches ''dddd-dd-dd dd:dd:dd'' (stamp env n)"
    by (simp add: stamp_def format_four_digit_year)
qed

theorem persisted_keys_timestamped_witness:
  "fst (run sample_env) = Inr () \<and>
   valid_moment (tz sample_env ''Asia/Seoul'' (wall_now sample_env 0)) \<and>
   valid_moment (tz sample_env ''Asia/Seoul'' (wall_now sample_env 1)) \<and>
   filter is_write (trace (snd (run sample_env))) =
     [EvWriteFile ''/app/src/cache/2024-05-07 09:03:00-response.html'' ''<li>old</li>'',
      EvWriteFile ''/app/src/record/2024-05-07 09:03:01-record.txt'' ''answer''] \<and>
   is_timestamp ''2024-05-07 09:03:00'' \<and> is_timestamp ''2024-05-07 09:03:01'' \<and>
   matches ''dddd-dd-dd dd:dd:dd'' ''2024-05-07 09:03:00'' \<and>
   matches ''dddd-dd-dd dd:dd:dd'' ''2024-05-07 09:03:01''"
proof -
  note main = persisted_keys_timestamped [of sample_env]
  note s = sample_env_stamps
  have k: "filePath sample_env ''2024-05-07 09:03:00'' =
             ''/app/src/cache/2024-05-07 09:03:00-response.html''"
    "filePath2 sample_env ''2024-05-07 09:03:01'' =
             ''/app/src/record/2024-05-07 09:03:01-record.txt''"
    by (simp_all add: filePath_def filePath2_def path_join_def cacheDir_def recordDir_def
        sample_env_def)
  have v: "valid_moment (tz sample_env ''Asia/Seoul'' (wall_now sample_env 0))"
    "valid_moment (tz sample_env ''Asia/Seoul'' (wall_now sample_env 1))"
    by (simp_all add: sample_env_def valid_moment_def)
  have y: "year (tz sample_env ''Asia/Seoul'' (wall_now sample_env 0)) \<le> 9999"
    "year (tz sample_env ''Asia/Seoul'' (wall_now sample_env 1)) \<le> 9999"
    by (simp_all add: sample_env_def)
  from main sample_env_succeeds obtain raw store resp where
    raw: "http_get sample_env 0 config_domain = Inr raw" and
    resp: "chain_call sample_env ''gpt-3.5-turbo'' store (config_query sample_env) = Inr resp" and
    writes: "filter is_write (trace (snd (run sample_env))) =
       [EvWriteFile (filePath sample_env (stamp sample_env 0)) raw,
        EvWriteFile (filePath2 sample_env (stamp sample_env 1)) (resp_text resp)]"
    by blast
  from raw have "raw = ''<li>old</li>''"
    by (simp add: sample_env_def)
  moreover from resp have "resp_text resp = ''answer''"
    by (auto simp: sample_env_def)
  ultimately have w: "filter is_write (trace (snd (run sample_env))) =
     [EvWriteFile ''/app/src/cache/2024-05-07 09:03:00-response.html'' ''<li>old</li>'',
      EvWriteFile ''/app/src/record/2024-05-07 09:03:01-record.txt'' ''answer'']"
    using writes unfolding s k by simp
  from main v y have "is_timestamp (stamp sample_env 0)" "is_timestamp (stamp sample_env 1)"
    "matches ''dddd-dd-dd dd:dd:dd'' (stamp sample_env 0)"
    "matches ''dddd-dd-dd dd:dd:dd'' (stamp sample_env 1)"
    by blast+
  with w v sample_env_succeeds show ?thesis
    unfolding s by simp
qed

text \<open>
  C9. A successful run makes exactly two HTTP requests, both for the configured
  URL. The body of the first (axios) is what is written to the cache file; the
  body of the second (the loader's own request) is what is extracted, split,
  indexed and queried, and the answer to that query is what is written to the
  record file. Nothing relates the two bodies: in the run of \<open>sample_env\<close> they
  differ.
\<close>

theorem two_independent_fetches:
  assumes "fst (run env) = Inr ()"
  shows "\<exists>raw html loaded chunks store resp.
     http_get env 0 config_domain = Inr raw \<and>
     http_get env 1 config_domain = Inr html \<and>
     cheerio_extract env config_domain ''li'' html = Inr loaded \<and>
     split_documents env splitter_fields loaded = Inr chunks \<and>
     from_documents env (to_docs chunks) (embeddings_fields env) = Inr store \<and>
     chain_call env ''gpt-3.5-turbo'' store (config_query env) = Inr resp \<and>
     filter is_http (trace (snd (run env))) = [EvHttpGet config_domain, EvHttpGet config_domain] \<and>
     filter is_write (trace (snd (run env))) =
       [EvWriteFile (filePath env (stamp env 0)) raw,
        EvWriteFile (filePath2 env (stamp env 1)) (resp_text resp)]"
  using run_hoare [OF main_success_trace, of env] assms
  by (auto simp: is_http_def is_write_def split: prod.splits sum.splits)

theorem two_independent_fetches_witness:
  "fst (run sample_env) = Inr () \<and>
   filter is_write (trace (snd (run sample_env))) =
     [EvWriteFile (filePath sample_env (stamp sample_env 0)) ''<li>old</li>'',
      EvWriteFile (filePath2 sample_env (stamp sample_env 1)) ''answer''] \<and>
   http_get sample_env 1 config_domain = Inr ''<li>new</li>''"
proof -
  obtain raw store resp where
    raw: "http_get sample_env 0 config_domain = Inr raw" and
    resp: "chain_call sample_env ''gpt-3.5-turbo'' store (config_query sample_env) = Inr resp" and
    writes: "filter is_write (trace (snd (run sample_env))) =
       [EvWriteFile (filePath sample_env (stamp sample_env 0)) raw,
        EvWriteFile (filePath2 sample_env (stamp sample_env 1)) (resp_text resp)]"
    using two_independent_fetches [OF sample_env_succeeds] by blast
  from raw have "raw = ''<li>old</li>''"
    by (simp add: sample_env_def)
  moreover from resp have "resp_text resp = ''answer''"
    by (auto simp: sample_env_def)
  moreover have "http_get sample_env 1 config_domain = Inr ''<li>new</li>''"
    by (simp add: sample_env_def)
  ultimately show ?thesis
    using writes sample_env_succeeds by simp
qed

text \<open>
  C4 (amended). \<open>main\<close> has no check for an empty list of chunks. When the
  splitter returns no chunk, \<open>main\<close> still calls \<^verbatim>\<open>HNSWLib.fromDocuments\<close>, with
  the empty list of documents; and when that call and the construction of the
  chat model return normally, it still calls the chain with the query. If such
  a run fails, the error is the one thrown by \<^verbatim>\<open>fromDocuments\<close>, by the
  construction of the chat model, by the chain, or by the write of the record
  file: \<open>main\<close> raises no error of its own.
\<close>

theorem zero_chunks_not_guarded:
  assumes "EvSplit loaded \<in> set (trace (snd (run env)))"
    and "split_documents env splitter_fields loaded = Inr []"
  shows "EvFromDocuments [] \<in> set (trace (snd (run env))) \<and>
    (\<forall>store. from_documents env [] (embeddings_fields env) = Inr store \<longrightarrow>
       new_chat_model env ''gpt-3.5-turbo'' = None \<longrightarrow>
       EvChainCall (config_query env) \<in> set (trace (snd (run env)))) \<and>
    (\<forall>e. fst (run env) = Inl e \<longrightarrow>
       from_documents env [] (embeddings_fields env) = Inl e \<or>
       new_chat_model env ''gpt-3.5-turbo'' = Some e \<or>
       (\<exists>store. from_documents env [] (embeddings_fields env) = Inr store \<and>
          chain_call env ''gpt-3.5-turbo'' store (config_query env) = Inl e) \<or>
       (\<exists>answer. fs_write env (filePath2 env (stamp env 1)) answer = Some e))"
proof (cases "run env")
  case (Pair r w)
  show ?thesis
  proof (cases r)
    case (Inl e)
    with Pair run_hoare [OF main_zero_chunks, of env] assms show ?thesis
      by simp
  next
    case (Inr u)
    with Pair run_hoare [OF main_zero_chunks, of env] assms show ?thesis
      by simp
  qed
qed

theorem zero_chunks_not_guarded_witness:
  "EvSplit [\<lparr>pageContent = [], metadata = []\<rparr>] \<in> set (trace (snd (run empty_env))) \<and>
   split_documents empty_env splitter_fields [\<lparr>pageContent = [], metadata = []\<rparr>] = Inr [] \<and>
   from_documents empty_env [] (embeddings_fields empty_env) = Inr 0 \<and>
   new_chat_model empty_env ''gpt-3.5-turbo'' = None \<and>
   EvFromDocuments [] \<in> set (trace (snd (run empty_env))) \<and>
   EvChainCall (config_query empty_env) \<in> set (trace (snd (run empty_env)))"
proof -
  have a: "EvSplit [\<lparr>pageContent = [], metadata = []\<rparr>] \<in> set (trace (snd (run empty_env)))"
    using empty_env_run by simp
  have b: "split_documents empty_env splitter_fields [\<lparr>pageContent = [], metadata = []\<rparr>] = Inr []"
    and c: "from_documents empty_env [] (embeddings_fields empty_env) = Inr 0"
    and d: "new_chat_model empty_env ''gpt-3.5-turbo'' = None"
    by (simp_all add: empty_env_def)
  from zero_chunks_not_guarded [OF a b] a b c d show ?thesis
    by blast
qed

text \<open>In the run of \<open>empty_env\<close> the splitter returns no chunk; the store is
  built from the empty list, the chain is called, and the run ends with the
  error thrown by the chain.\<close>

theorem zero_chunks_counterexample:
  "split_documents empty_env splitter_fields [\<lparr>pageContent = [], metadata = []\<rparr>] = Inr [] \<and>
   fst (run empty_env) = Inl (JsError ''no vectors'') \<and>
   trace (snd (run empty_env)) =
     [EvHttpGet config_domain,
      EvWriteFile (filePath empty_env (stamp empty_env 0)) ''<p>nothing</p>'',
      EvHttpGet config_domain,
      EvSplit [\<lparr>pageContent = [], metadata = []\<rparr>],
      EvFromDocuments [],
      EvChainCall (config_query empty_env)]"
  using empty_env_run by (simp add: empty_env_def)

text \<open>
  C10 (amended). Every log line carries the value of the shared counter
  \<^verbatim>\<open>currentStep\<close>, which starts at 1 and grows by exactly 1 per logged message:
  in every run, failed or not, the logged step numbers are 1, 2, ... up to the
  number of lines. \<open>main\<close> calls \<^verbatim>\<open>logTimeWriteOutStep\<close> twelve times, so a successful
  run logs the steps 1 through 12 (not 14). When \<^verbatim>\<open>performance.now()\<close> never
  goes back, the printed elapsed times never decrease from one line to the next.
\<close>

theorem log_steps_consecutive:
  "map stepNo (console (snd (run env))) = [1..<Suc (length (console (snd (run env))))] \<and>
   (fst (run env) = Inr () \<longrightarrow> map stepNo (console (snd (run env))) = [1..<13]) \<and>
   (mono (perf_now env) \<longrightarrow> sorted (map elapsedTime (console (snd (run env)))))"
proof (intro conjI impI)
  let ?w = "snd (run env)"
  have inv: "log_inv env ?w" by (rule run_log_inv)
  then have steps: "map stepNo (console ?w) = [1..<currentStep ?w]"
    by (simp add: log_inv_def)
  then have "length (console ?w) = currentStep ?w - 1"
    by (metis length_map length_upt)
  then have "[1..<Suc (length (console ?w))] = [1..<currentStep ?w]"
    by (cases "currentStep ?w") auto
  with steps show "map stepNo (console ?w) = [1..<Suc (length (console ?w))]"
    by simp
  show "map stepNo (console ?w) = [1..<13]" if "fst (run env) = Inr ()"
    using steps run_success_currentStep [OF that] by simp
  show "sorted (map elapsedTime (console ?w))" if "mono (perf_now env)"
  proof -
    have "elapsed (perf_now env 0) (perf_now env i)
            \<le> elapsed (perf_now env 0) (perf_now env j)" if "i \<le> j" for i j
      using monoD [OF \<open>mono (perf_now env)\<close> that] by (rule elapsed_mono)
    then show ?thesis
      using inv by (simp add: log_inv_def sorted_map_upt)
  qed
qed

theorem log_steps_consecutive_witness:
  "fst (run sample_env) = Inr () \<and> mono (perf_now sample_env) \<and>
   map stepNo (console (snd (run sample_env))) = [1..<13] \<and>
   sorted (map elapsedTime (console (snd (run sample_env))))"
  using log_steps_consecutive [of sample_env, THEN conjunct2] sample_env_succeeds sample_env_mono
  by blast

text \<open>The run of \<open>sample_env\<close> succeeds and does not log the step numbers 1
  through 14.\<close>

theorem log_steps_fourteen_counterexample:
  "fst (run sample_env) = Inr () \<and>
   map stepNo (console (snd (run sample_env))) \<noteq> [1, 2, 3, 4, 5, 6, 7, 8, 9, 10, 11, 12, 13, 14]"
proof
  show ok: "fst (run sample_env) = Inr ()" by (rule sample_env_succeeds)
  have "map stepNo (console (snd (run sample_env))) = [1..<13]"
    using run_log_inv [of sample_env] run_success_currentStep [OF ok]
    by (simp add: log_inv_def)
  then have "length (map stepNo (console (snd (run sample_env)))) = 12"
    by simp
  then show "map stepNo (console (snd (run sample_env))) \<noteq> [1, 2, 3, 4, 5, 6, 7, 8, 9, 10, 11, 12, 13, 14]"
    by auto
qed

end
